theory Spec2Isabelle
  imports Complex_Main
begin

section \<open>Text helpers of the standard library\<close>

text \<open>
  The comparables service (\<^verbatim>\<open>recommender_engine/autoscout-ml/src/api.py\<close>) works on
  Python strings. They are modelled as \<^typ>\<open>string\<close>, read as ASCII text: on ASCII
  text \<^verbatim>\<open>unicodedata.normalize("NFKD", s)\<close> returns \<^verbatim>\<open>s\<close> and no character is
  combining, so \<^verbatim>\<open>strip_accents\<close> is the identity there. Bytes above 127 are carried
  through unchanged as opaque symbols. Python floats are modelled as \<^typ>\<open>real\<close>.
\<close>

definition is_space :: "char \<Rightarrow> bool" where
  \<comment> \<open>\<^verbatim>\<open>str.isspace\<close> on ASCII: TAB, LF, VT, FF, CR, FS, GS, RS, US and the blank.\<close>
  "is_space c = (c \<in> set [CHR 0x09, CHR 0x0A, CHR 0x0B, CHR 0x0C, CHR 0x0D,
                           CHR 0x1C, CHR 0x1D, CHR 0x1E, CHR 0x1F, CHR '' ''])"

definition py_strip :: "string \<Rightarrow> string" where
  \<comment> \<open>\<^verbatim>\<open>s.strip()\<close>\<close>
  "py_strip s = rev (dropWhile is_space (rev (dropWhile is_space s)))"

definition lower_char :: "char \<Rightarrow> char" where
  "lower_char c =
     (case map_of (zip ''ABCDEFGHIJKLMNOPQRSTUVWXYZ'' ''abcdefghijklmnopqrstuvwxyz'') c of
        Some d \<Rightarrow> d
      | None \<Rightarrow> c)"

definition py_lower :: "string \<Rightarrow> string" where
  \<comment> \<open>\<^verbatim>\<open>s.lower()\<close>\<close>
  "py_lower s = map lower_char s"

definition replace_char :: "char \<Rightarrow> char \<Rightarrow> string \<Rightarrow> string" where
  \<comment> \<open>\<^verbatim>\<open>s.replace(a, b)\<close> for one-character \<^verbatim>\<open>a\<close> and \<^verbatim>\<open>b\<close>\<close>
  "replace_char a b s = map (\<lambda>c. if c = a then b else c) s"

fun collapse_run :: "bool \<Rightarrow> string \<Rightarrow> string" where
  \<comment> \<open>the flag says that the previous character was white space\<close>
  "collapse_run in_run [] = []"
| "collapse_run in_run (c # cs) =
     (if is_space c then (if in_run then collapse_run True cs else CHR '' '' # collapse_run True cs)
      else c # collapse_run False cs)"

definition collapse_ws :: "string \<Rightarrow> string" where
  \<comment> \<open>\<^verbatim>\<open>re.sub(r"\s+", " ", s)\<close>\<close>
  "collapse_ws s = collapse_run False s"

fun ws_ok :: "bool \<Rightarrow> string \<Rightarrow> bool" where
  \<comment> \<open>a text whose only white space is single blanks; the flag as in \<open>collapse_run\<close>\<close>
  "ws_ok in_run [] = True"
| "ws_ok in_run (c # cs) =
     (if is_space c then \<not> in_run \<and> c = CHR '' '' \<and> ws_ok True cs else ws_ok False cs)"

fun starts_with :: "string \<Rightarrow> string \<Rightarrow> bool" where
  \<comment> \<open>\<^verbatim>\<open>s.startswith(p)\<close>, the prefix first\<close>
  "starts_with [] s = True"
| "starts_with (p # ps) [] = False"
| "starts_with (p # ps) (c # cs) = (p = c \<and> starts_with ps cs)"

fun contains :: "string \<Rightarrow> string \<Rightarrow> bool" where
  \<comment> \<open>\<^verbatim>\<open>keyword in s\<close>, the keyword first\<close>
  "contains kw [] = (kw = [])"
| "contains kw (c # cs) = (starts_with kw (c # cs) \<or> contains kw cs)"

fun split_parts_from :: "nat \<Rightarrow> string \<Rightarrow> string \<Rightarrow> string list" where
  \<comment> \<open>\<^verbatim>\<open>re.split(r"[\/,;]| und | with ", s)\<close>: the number of characters of a matched
      separator still to skip, the current part in reverse, and the rest of the text\<close>
  "split_parts_from k cur [] = [rev cur]"
| "split_parts_from (Suc k) cur (c # cs) = split_parts_from k cur cs"
| "split_parts_from 0 cur (c # cs) =
     (if c = CHR ''/'' \<or> c = CHR '','' \<or> c = CHR '';'' then rev cur # split_parts_from 0 [] cs
      else if starts_with '' und '' (c # cs) then rev cur # split_parts_from 4 [] cs
      else if starts_with '' with '' (c # cs) then rev cur # split_parts_from 5 [] cs
      else split_parts_from 0 (c # cur) cs)"

definition split_parts :: "string \<Rightarrow> string list" where
  "split_parts s = split_parts_from 0 [] s"

fun split_on_from :: "char \<Rightarrow> string \<Rightarrow> string \<Rightarrow> string list" where
  "split_on_from d cur [] = [rev cur]"
| "split_on_from d cur (c # cs) =
     (if c = d then rev cur # split_on_from d [] cs else split_on_from d (c # cur) cs)"

definition split_on :: "char \<Rightarrow> string \<Rightarrow> string list" where
  \<comment> \<open>\<^verbatim>\<open>s.split(d)\<close> for a one-character separator\<close>
  "split_on d s = split_on_from d [] s"

definition digit_value :: "char \<Rightarrow> int option" where
  "digit_value c = map_of (zip ''0123456789'' [0, 1, 2, 3, 4, 5, 6, 7, 8, 9]) c"

definition is_digit :: "char \<Rightarrow> bool" where
  "is_digit c = (digit_value c \<noteq> None)"

definition py_isdigit :: "string \<Rightarrow> bool" where
  \<comment> \<open>\<^verbatim>\<open>s.isdigit()\<close>: false on the empty string\<close>
  "py_isdigit s = (s \<noteq> [] \<and> list_all is_digit s)"

definition digits_value :: "string \<Rightarrow> int" where
  \<comment> \<open>\<^verbatim>\<open>int(s)\<close> on a string of digits\<close>
  "digits_value s = foldl (\<lambda>acc c. 10 * acc + (case digit_value c of Some d \<Rightarrow> d | None \<Rightarrow> 0)) 0 s"

section \<open>Normalisation (api.py, utility helpers)\<close>

definition COLOR_CANONICAL_MAP :: "(string \<times> string) list" where
  "COLOR_CANONICAL_MAP =
    [(''weiss'', ''white''),
     (''wei'' @ [CHR 0xC3, CHR 0x9F], ''white''),
     (''wei'' @ [CHR 0xC3, CHR 0x9F] @ '' metallic'', ''white''),
     (''weiss metallic'', ''white''),
     (''white'', ''white''),
     (''candy white'', ''white''),
     (''polar white'', ''white''),
     (''pure white'', ''white''),
     (''alpinweiss'', ''white''),
     (''alpine white'', ''white''),
     (''blanc'', ''white''),
     (''bianco'', ''white''),
     (''schwarz'', ''black''),
     (''schwarz metallic'', ''black''),
     (''black'', ''black''),
     (''deep black'', ''black''),
     (''noir'', ''black''),
     (''nero'', ''black''),
     (''grau'', ''gray''),
     (''grau metallic'', ''gray''),
     (''graphit'', ''gray''),
     (''graphite'', ''gray''),
     (''grey'', ''gray''),
     (''gris'', ''gray''),
     (''anthrazit'', ''gray''),
     (''anthracite'', ''gray''),
     (''blau'', ''blue''),
     (''azul'', ''blue''),
     (''bleu'', ''blue''),
     (''blu'', ''blue''),
     (''rot'', ''red''),
     (''rosso'', ''red''),
     (''rouge'', ''red''),
     (''silber'', ''silver''),
     (''silber metallic'', ''silver''),
     (''silver'', ''silver''),
     (''argent'', ''silver''),
     (''grun'', ''green''),
     (''gr'' @ [CHR 0xC3, CHR 0xBC] @ ''n'', ''green''),
     (''verde'', ''green''),
     (''vert'', ''green''),
     (''braun'', ''brown''),
     (''marron'', ''brown''),
     (''bruin'', ''brown''),
     (''beige'', ''beige''),
     (''sand'', ''beige''),
     (''creme'', ''beige''),
     (''orange'', ''orange''),
     (''gelb'', ''yellow''),
     (''amarillo'', ''yellow''),
     (''giallo'', ''yellow'')]"

definition COLOR_KEYWORD_MAP :: "(string \<times> string list) list" where
  "COLOR_KEYWORD_MAP =
    [(''white'', [''weiss'', ''wei'' @ [CHR 0xC3, CHR 0x9F], ''white'', ''bianco'', ''blanc'',
                  ''blanco'', ''alpin'', ''arctic'', ''polar'', ''candy'', ''pure white'', ''snow'']),
     (''black'', [''schwarz'', ''black'', ''noir'', ''nero'', ''obsidian'', ''midnight'',
                  ''deep black'', ''onyx'']),
     (''gray'', [''grau'', ''grau metallic'', ''gray'', ''gris'', ''anthracite'', ''graphit'',
                 ''graphite'', ''slate'']),
     (''blue'', [''blau'', ''bleu'', ''blu'', ''azul'', ''blue'', ''navy'', ''ocean'']),
     (''red'', [''rot'', ''rosso'', ''rouge'', ''red'', ''crimson'']),
     (''silver'', [''silber'', ''silver'', ''argent'', ''platinum'', ''platino'']),
     (''green'', [''grun'', ''gruen'', ''gr'' @ [CHR 0xC3, CHR 0xBC] @ ''n'', ''verde'', ''vert'',
                  ''green'']),
     (''brown'', [''braun'', ''marron'', ''brown'', ''bruin'', ''bronze'']),
     (''beige'', [''beige'', ''sand'', ''creme'', ''champagne'', ''ivory'']),
     (''orange'', [''orange'', ''sunset'']),
     (''yellow'', [''gelb'', ''giallo'', ''amarillo'', ''yellow''])]"




definition normalize_text :: "string option \<Rightarrow> string option" where
  "normalize_text v =
     (case v of
        None \<Rightarrow> None
      | Some s \<Rightarrow> (let text = py_strip s in if text = [] then None else Some text))"

definition strip_accents :: "string \<Rightarrow> string" where
  \<comment> \<open>the identity on ASCII text, see above\<close>
  "strip_accents s = s"

fun first_canonical_part :: "string list \<Rightarrow> string option" where
  \<comment> \<open>the loop over the parts of a composite value\<close>
  "first_canonical_part [] = None"
| "first_canonical_part (part # rest) =
     (let p = py_strip part in
      if p = [] then first_canonical_part rest
      else (case map_of COLOR_CANONICAL_MAP p of
              Some c \<Rightarrow> Some c
            | None \<Rightarrow> first_canonical_part rest))"

fun keyword_lookup :: "(string \<times> string list) list \<Rightarrow> string \<Rightarrow> string option" where
  \<comment> \<open>the keyword fallback: the first canonical colour one of whose keywords occurs\<close>
  "keyword_lookup [] lowered = None"
| "keyword_lookup ((canonical, keywords) # rest) lowered =
     (if list_ex (\<lambda>keyword. contains keyword lowered) keywords then Some canonical
      else keyword_lookup rest lowered)"

definition clean_color :: "string \<Rightarrow> string" where
  \<comment> \<open>the three assignments to \<^verbatim>\<open>lowered\<close> in \<^verbatim>\<open>normalize_color\<close>\<close>
  "clean_color text =
     py_strip (collapse_ws (replace_char (CHR ''-'') (CHR '' '') (py_lower (strip_accents text))))"

definition normalize_color :: "string option \<Rightarrow> string option" where
  "normalize_color v =
     (case normalize_text v of
        None \<Rightarrow> None
      | Some text \<Rightarrow>
          (let lowered = clean_color text in
           case map_of COLOR_CANONICAL_MAP lowered of
             Some c \<Rightarrow> Some c
           | None \<Rightarrow>
               (case first_canonical_part (split_parts lowered) of
                  Some c \<Rightarrow> Some c
                | None \<Rightarrow>
                    (case keyword_lookup COLOR_KEYWORD_MAP lowered of
                       Some c \<Rightarrow> Some c
                     | None \<Rightarrow> Some lowered))))"


fun first_year_token :: "string list \<Rightarrow> int option" where
  "first_year_token [] = None"
| "first_year_token (token # rest) =
     (if py_isdigit token \<and> length token = 4 then Some (digits_value token)
      else first_year_token rest)"

definition extract_year :: "string option \<Rightarrow> int option" where
  "extract_year raw =
     (case raw of
        None \<Rightarrow> None
      | Some text \<Rightarrow> first_year_token (split_on (CHR ''-'') (replace_char (CHR ''/'') (CHR ''-'') text)))"

definition py_int :: "string \<Rightarrow> int option" where
  \<comment> \<open>\<^verbatim>\<open>int(s)\<close> on ASCII text, \<^verbatim>\<open>None\<close> where Python raises \<^verbatim>\<open>ValueError\<close>: white space
      around, an optional sign, digits with single underscores between them\<close>
  "py_int s =
     (let t = py_strip s;
          neg = (t \<noteq> [] \<and> hd t = CHR ''-'');
          body = (if t \<noteq> [] \<and> (hd t = CHR ''-'' \<or> hd t = CHR ''+'') then tl t else t);
          groups = split_on (CHR ''_'') body
      in if list_all py_isdigit groups
         then Some ((if neg then - 1 else 1) * digits_value (concat groups))
         else None)"

datatype pyval = PNone | PNum real | PStr string

definition normalise_price :: "pyval \<Rightarrow> real option" where
  "normalise_price v =
     (case v of
        PNone \<Rightarrow> None
      | PNum x \<Rightarrow> Some x
      | PStr s \<Rightarrow>
          (let digits = filter is_digit s in
           if digits = [] then None else Some (real_of_int (digits_value digits))))"

definition normalise_mileage :: "pyval \<Rightarrow> real option" where
  "normalise_mileage v =
     (case v of
        PNone \<Rightarrow> None
      | PNum x \<Rightarrow> Some x
      | PStr s \<Rightarrow>
          (let digits = filter is_digit s in
           if digits = [] then None else Some (real_of_int (digits_value digits))))"

section \<open>Deal score (api.py, compute\_deal\_score)\<close>

record deal_details =
  price_percentile :: "real option"
  dd_median_price :: "real option"
  dd_mileage_ratio :: "real option"
  discount_pct :: "real option"
  comparable :: real
  hedonic :: real

definition truthy :: "real option \<Rightarrow> bool" where
  \<comment> \<open>Python's truth value of an optional float: neither \<^verbatim>\<open>None\<close> nor zero\<close>
  "truthy v = (case v of None \<Rightarrow> False | Some x \<Rightarrow> x \<noteq> 0)"

definition percentile_score :: "real option \<Rightarrow> real" where
  \<comment> \<open>the first value of \<^verbatim>\<open>comps_score\<close>\<close>
  "percentile_score percentile =
     (case percentile of
        None \<Rightarrow> 0.5
      | Some pc \<Rightarrow> max 0 (min 1 (1 - pc)))"

definition comps_discount_of :: "real \<Rightarrow> real option \<Rightarrow> real option" where
  "comps_discount_of p median_price =
     (if truthy median_price \<and> 0 < the median_price
      then Some ((the median_price - p) / the median_price)
      else None)"

definition median_score :: "real option \<Rightarrow> real \<Rightarrow> real" where
  \<comment> \<open>\<^verbatim>\<open>comps_score\<close> after the cohort median is taken into account\<close>
  "median_score comps_discount comps_score =
     (case comps_discount of
        Some d \<Rightarrow> 1 / (1 + exp (- 6 * d))
      | None \<Rightarrow> comps_score)"

definition mileage_ratio_of :: "real option \<Rightarrow> real option \<Rightarrow> real option" where
  "mileage_ratio_of target_mileage candidate_mileage =
     (if truthy target_mileage \<and> truthy candidate_mileage
      then Some ((the candidate_mileage - the target_mileage) / max (the target_mileage) 1)
      else None)"

definition mileage_adjusted :: "real option \<Rightarrow> real \<Rightarrow> real" where
  \<comment> \<open>\<^verbatim>\<open>comps_score\<close> after the mileage adjustment\<close>
  "mileage_adjusted ratio comps_score =
     (case ratio of
        None \<Rightarrow> comps_score
      | Some r \<Rightarrow>
          (if 0 < r then comps_score - min (r / 1.5) 1 * 0.25
           else comps_score + min (\<bar>r\<bar> / 1.5) 1 * 0.15))"

definition hedonic_of :: "real \<Rightarrow> real option \<Rightarrow> real \<Rightarrow> real" where
  "hedonic_of p target_price comps_score =
     (if truthy target_price \<and> 0 < the target_price
      then 1 / (1 + exp (- 6 * ((the target_price - p) / the target_price)))
      else comps_score)"

definition compute_deal_score ::
  "real option \<Rightarrow> real option \<Rightarrow> real option \<Rightarrow> real option \<Rightarrow> real option \<Rightarrow> real option
     \<Rightarrow> real \<times> deal_details" where
  "compute_deal_score price percentile median_price target_price target_mileage candidate_mileage =
     (case price of
        None \<Rightarrow>
          (0.5, \<lparr>price_percentile = percentile, dd_median_price = median_price,
                 dd_mileage_ratio = None, discount_pct = None, comparable = 0.5, hedonic = 0.5\<rparr>)
      | Some p \<Rightarrow>
          (let comps_discount = comps_discount_of p median_price;
               ratio = mileage_ratio_of target_mileage candidate_mileage;
               comps_score =
                 mileage_adjusted ratio (median_score comps_discount (percentile_score percentile));
               hedonic_score = hedonic_of p target_price comps_score;
               deal = max 0 (min 1 (0.5 * comps_score + 0.5 * hedonic_score))
           in (deal, \<lparr>price_percentile = percentile, dd_median_price = median_price,
                      dd_mileage_ratio = ratio,
                      discount_pct = map_option (\<lambda>d. d * 100) comps_discount,
                      comparable = comps_score, hedonic = hedonic_score\<rparr>)))"

section \<open>Categorical similarity (api.py, SimilarityEngine)\<close>













section \<open>Ranking weights (api.py, comparables\_endpoint)\<close>

definition ranking_weights :: "real \<Rightarrow> real \<times> real" where
  \<comment> \<open>\<^verbatim>\<open>(alpha_weight, beta_weight)\<close> from the parsed \<^verbatim>\<open>balance\<close>\<close>
  "ranking_weights balance0 =
     (let balance = max (- 1) (min 1 balance0);
          alpha_base = 0.55;
          beta_base = 0.30;
          alpha_raw0 = max 0.15 (alpha_base + balance * 0.2);
          beta_raw0 = max 0.15 (beta_base - balance * 0.2);
          total_raw0 = alpha_raw0 + beta_raw0;
          desired_total = 0.85;
          alpha_raw = (if total_raw0 \<le> 0 then alpha_base else alpha_raw0);
          beta_raw = (if total_raw0 \<le> 0 then beta_base else beta_raw0);
          total_raw = (if total_raw0 \<le> 0 then alpha_raw + beta_raw else total_raw0);
          scale = desired_total / total_raw
      in (max 0.1 (min 0.85 (alpha_raw * scale)), max 0.1 (min 0.85 (beta_raw * scale))))"



section \<open>Freshness, final blend and quality floor (api.py, score\_candidates)\<close>

text \<open>
  A timestamp column as \<^verbatim>\<open>format_vehicle_payload\<close> reads it: absent (\<^verbatim>\<open>None\<close> or empty),
  present but refused by \<^verbatim>\<open>datetime.fromisoformat\<close>, or a time in seconds. The current
  time \<^verbatim>\<open>datetime.utcnow()\<close> is an input.
\<close>

datatype timestamp = Missing | Unparsable | At real

definition ts_or :: "timestamp \<Rightarrow> timestamp \<Rightarrow> timestamp" where
  \<comment> \<open>\<^verbatim>\<open>row.get("updated_at") or row.get("created_at")\<close>\<close>
  "ts_or a b = (if a = Missing then b else a)"

definition freshness_days_of :: "real \<Rightarrow> timestamp \<Rightarrow> timestamp \<Rightarrow> real option" where
  "freshness_days_of now updated_at created_at =
     (case ts_or updated_at created_at of
        Missing \<Rightarrow> None
      | Unparsable \<Rightarrow> None
      | At t \<Rightarrow> Some (max 0 ((now - t) / 86400)))"

definition freshness_score_of :: "real option \<Rightarrow> real option" where
  "freshness_score_of freshness_days =
     (case freshness_days of
        None \<Rightarrow> None
      | Some d \<Rightarrow> Some (exp (- d / 30)))"

definition freshness_term :: "real option \<Rightarrow> real" where
  \<comment> \<open>\<^verbatim>\<open>freshness_score if freshness_score is not None else 0.0\<close>\<close>
  "freshness_term freshness_score = (case freshness_score of Some s \<Rightarrow> s | None \<Rightarrow> 0)"

record ranking =
  rank_alpha :: real
  rank_beta :: real
  rank_freshness :: real
  rank_trust :: real


record scored =
  s_id :: string
  similarity_score :: real
  deal_score :: real
  freshness_score :: "real option"
  trust_score :: real
  final_score :: real

definition blend :: "ranking \<Rightarrow> real \<Rightarrow> real \<Rightarrow> real option \<Rightarrow> real \<Rightarrow> real" where
  "blend tolerances similarity deal freshness trust =
     max 0 (min 1 (rank_alpha tolerances * similarity
                   + rank_beta tolerances * deal
                   + rank_freshness tolerances * freshness_term freshness
                   + rank_trust tolerances * trust))"






section \<open>Candidate retrieval (api.py, find\_candidate\_rows)\<close>

text \<open>
  A row of \<^verbatim>\<open>vehicle_marketplace.vehicle_data\<close> as the queries select it, with the
  availability flag of the table. \<^verbatim>\<open>price_num\<close> and \<^verbatim>\<open>mileage_num\<close> are the values of
  \<^verbatim>\<open>NUMERIC_PRICE_SQL\<close> and \<^verbatim>\<open>NUMERIC_MILEAGE_SQL\<close> that the store computes for the row;
  the same expressions stand in the \<^verbatim>\<open>WHERE\<close> clause. \<^verbatim>\<open>power_kw\<close> is read as a numeric
  column; the column \<^verbatim>\<open>make\<close> is the field \<open>vehicle_make\<close>. The store is the list of
  its rows in the order of \<^verbatim>\<open>ORDER BY created_at DESC\<close>.
\<close>

record row =
  vehicle_id :: string
  is_vehicle_available :: bool
  vehicle_make :: "string option"
  model :: "string option"
  body_type :: "string option"
  fuel_type :: "string option"
  transmission :: "string option"
  color :: "string option"
  first_registration_raw :: "string option"
  price :: pyval
  price_num :: "real option"
  mileage_km :: pyval
  mileage_num :: "real option"
  power_kw :: "real option"

record attempt =
  attempt_name :: string
  year_tolerance :: int
  mileage_ratio :: real
  price_min :: real
  price_max :: real
  power_ratio :: real

definition relaxation_attempts :: "attempt list" where
  "relaxation_attempts =
    [\<lparr>attempt_name = ''strict'', year_tolerance = 2, mileage_ratio = 0.5,
      price_min = 0.6, price_max = 1.4, power_ratio = 0.15\<rparr>,
     \<lparr>attempt_name = ''relaxed_year'', year_tolerance = 3, mileage_ratio = 0.5,
      price_min = 0.6, price_max = 1.4, power_ratio = 0.15\<rparr>,
     \<lparr>attempt_name = ''relaxed_mileage'', year_tolerance = 3, mileage_ratio = 0.75,
      price_min = 0.6, price_max = 1.4, power_ratio = 0.15\<rparr>,
     \<lparr>attempt_name = ''relaxed_price'', year_tolerance = 3, mileage_ratio = 0.75,
      price_min = 0.5, price_max = 1.5, power_ratio = 0.15\<rparr>,
     \<lparr>attempt_name = ''relaxed_power'', year_tolerance = 3, mileage_ratio = 0.75,
      price_min = 0.5, price_max = 1.5, power_ratio = 0.25\<rparr>]"

definition str_truthy :: "string option \<Rightarrow> bool" where
  \<comment> \<open>Python's truth value of an optional string\<close>
  "str_truthy v = (case v of None \<Rightarrow> False | Some s \<Rightarrow> s \<noteq> [])"

definition num_or :: "real option \<Rightarrow> pyval \<Rightarrow> pyval" where
  \<comment> \<open>\<^verbatim>\<open>a or b\<close> for an optional float \<^verbatim>\<open>a\<close>\<close>
  "num_or a b = (case a of None \<Rightarrow> b | Some x \<Rightarrow> if x \<noteq> 0 then PNum x else b)"

definition target_price_of :: "row \<Rightarrow> real option" where
  "target_price_of target_row = normalise_price (num_or (price_num target_row) (price target_row))"

definition target_mileage_of :: "row \<Rightarrow> real option" where
  "target_mileage_of target_row =
     normalise_mileage (num_or (mileage_num target_row) (mileage_km target_row))"

definition target_power_of :: "row \<Rightarrow> real option" where
  "target_power_of target_row =
     normalise_mileage (case power_kw target_row of None \<Rightarrow> PNone | Some x \<Rightarrow> PNum x)"

definition sql_trim :: "string \<Rightarrow> string" where
  \<comment> \<open>\<^verbatim>\<open>TRIM(s)\<close>: blanks off both ends\<close>
  "sql_trim s = rev (dropWhile (\<lambda>c. c = CHR '' '') (rev (dropWhile (\<lambda>c. c = CHR '' '') s)))"

definition sql_eq :: "string option \<Rightarrow> string option \<Rightarrow> bool" where
  \<comment> \<open>\<^verbatim>\<open>a = b\<close> in a \<^verbatim>\<open>WHERE\<close> clause: a \<^verbatim>\<open>NULL\<close> on either side selects nothing\<close>
  "sql_eq a b = (case a of None \<Rightarrow> False | Some x \<Rightarrow> (case b of None \<Rightarrow> False | Some y \<Rightarrow> x = y))"

definition sql_between :: "real option \<Rightarrow> real \<Rightarrow> real \<Rightarrow> bool" where
  \<comment> \<open>\<^verbatim>\<open>v BETWEEN lo AND hi\<close>\<close>
  "sql_between v lo hi = (case v of None \<Rightarrow> False | Some x \<Rightarrow> lo \<le> x \<and> x \<le> hi)"

definition lower_trim_eq :: "string option \<Rightarrow> string option \<Rightarrow> bool" where
  \<comment> \<open>the condition \<^verbatim>\<open>LOWER(TRIM(column)) = %s\<close> with the parameter
      \<^verbatim>\<open>strip_accents(raw).lower()\<close>, added when the raw target value is true\<close>
  "lower_trim_eq target_raw column =
     (if str_truthy target_raw
      then sql_eq (map_option (\<lambda>s. py_lower (sql_trim s)) column)
                  (Some (py_lower (strip_accents (the target_raw))))
      else True)"

definition hard_locks :: "row \<Rightarrow> row \<Rightarrow> bool" where
  \<comment> \<open>the conditions of the \<^verbatim>\<open>WHERE\<close> clause that are the same in every attempt\<close>
  "hard_locks target_row r =
     (is_vehicle_available r
      \<and> vehicle_id r \<noteq> vehicle_id target_row
      \<and> sql_eq (vehicle_make r) (normalize_text (vehicle_make target_row))
      \<and> sql_eq (model r) (normalize_text (model target_row))
      \<and> lower_trim_eq (body_type target_row) (body_type r)
      \<and> lower_trim_eq (fuel_type target_row) (fuel_type r)
      \<and> lower_trim_eq (transmission target_row) (transmission r)
      \<and> (if str_truthy (normalize_color (color target_row))
          then color r \<noteq> None \<and> color r \<noteq> Some []
          else True))"

definition soft_locks :: "row \<Rightarrow> attempt \<Rightarrow> row \<Rightarrow> bool" where
  \<comment> \<open>the range conditions of the \<^verbatim>\<open>WHERE\<close> clause of one attempt\<close>
  "soft_locks target_row a r =
     ((if truthy (target_mileage_of target_row) \<and> 0 < the (target_mileage_of target_row)
       then sql_between (mileage_num r)
              (the (target_mileage_of target_row) * (1 - mileage_ratio a))
              (the (target_mileage_of target_row) * (1 + mileage_ratio a))
       else True)
      \<and> (if truthy (target_price_of target_row) \<and> 0 < the (target_price_of target_row)
          then sql_between (price_num r)
                 (the (target_price_of target_row) * price_min a)
                 (the (target_price_of target_row) * price_max a)
          else True)
      \<and> (if truthy (target_power_of target_row) \<and> 0 < the (target_power_of target_row)
          then sql_between (power_kw r)
                 (the (target_power_of target_row) * (1 - power_ratio a))
                 (the (target_power_of target_row) * (1 + power_ratio a))
          else True))"

definition sql_where :: "row \<Rightarrow> attempt \<Rightarrow> row \<Rightarrow> bool" where
  "sql_where target_row a r = (hard_locks target_row r \<and> soft_locks target_row a r)"

definition fetch_rows :: "row list \<Rightarrow> row \<Rightarrow> attempt \<Rightarrow> nat \<Rightarrow> row list" where
  \<comment> \<open>\<^verbatim>\<open>cursor.fetchall()\<close> of the attempt's query with its \<^verbatim>\<open>LIMIT\<close>\<close>
  "fetch_rows db target_row a candidate_limit =
     take candidate_limit (filter (sql_where target_row a) db)"

definition year_truthy :: "int option \<Rightarrow> bool" where
  "year_truthy y = (case y of None \<Rightarrow> False | Some n \<Rightarrow> n \<noteq> 0)"

definition row_kept :: "row \<Rightarrow> int option \<Rightarrow> attempt \<Rightarrow> row \<Rightarrow> bool" where
  \<comment> \<open>the colour and year filters of the loop over the fetched rows\<close>
  "row_kept target_row target_year a r =
     ((if str_truthy (normalize_color (color target_row))
       then normalize_color (color r) = normalize_color (color target_row)
       else True)
      \<and> (if year_truthy target_year
          then (case extract_year (first_registration_raw r) of
                  None \<Rightarrow> False
                | Some candidate_year \<Rightarrow> \<not> (year_tolerance a < \<bar>candidate_year - the target_year\<bar>))
          else True))"

definition filtered_rows :: "row list \<Rightarrow> row \<Rightarrow> int option \<Rightarrow> nat \<Rightarrow> attempt \<Rightarrow> (row \<times> string) list" where
  \<comment> \<open>the rows an attempt keeps, each with its \<^verbatim>\<open>_match_strategy\<close>\<close>
  "filtered_rows db target_row target_year candidate_limit a =
     map (\<lambda>r. (r, attempt_name a))
       (filter (row_kept target_row target_year a) (fetch_rows db target_row a candidate_limit))"

record attempt_log =
  log_name :: string
  row_count :: nat

datatype retrieval_error = Missing_make_or_model | No_candidates_found

record debug =
  selected_attempt :: "string option"
  attempts :: "attempt_log list"
  warning :: "(nat \<times> int) option"
  error :: "retrieval_error option"

fun relax_loop ::
  "row list \<Rightarrow> row \<Rightarrow> int option \<Rightarrow> nat \<Rightarrow> int \<Rightarrow> attempt list \<Rightarrow> attempt_log list
     \<Rightarrow> ((row \<times> string) list \<times> string) option \<Rightarrow> (row \<times> string) list \<times> debug" where
  "relax_loop db target_row target_year candidate_limit min_results [] attempt_logs best_result =
     (case best_result of
        None \<Rightarrow>
          ([], \<lparr>selected_attempt = None, attempts = attempt_logs, warning = None,
                error = Some No_candidates_found\<rparr>)
      | Some (rows, name) \<Rightarrow>
          if 0 < length rows
          then (rows, \<lparr>selected_attempt = Some name, attempts = attempt_logs,
                       warning = Some (length rows, min_results), error = None\<rparr>)
          else ([], \<lparr>selected_attempt = None, attempts = attempt_logs, warning = None,
                     error = Some No_candidates_found\<rparr>))"
| "relax_loop db target_row target_year candidate_limit min_results (a # rest) attempt_logs best_result =
     (let filtered = filtered_rows db target_row target_year candidate_limit a;
          logs = attempt_logs @ [\<lparr>log_name = attempt_name a, row_count = length filtered\<rparr>];
          best = (case best_result of
                    None \<Rightarrow> Some (filtered, attempt_name a)
                  | Some (rows, name) \<Rightarrow>
                      if length rows < length filtered then Some (filtered, attempt_name a)
                      else Some (rows, name))
      in if min_results \<le> int (length filtered)
         then (filtered, \<lparr>selected_attempt = Some (attempt_name a), attempts = logs,
                           warning = None, error = None\<rparr>)
         else relax_loop db target_row target_year candidate_limit min_results rest logs best)"

definition find_candidate_rows ::
  "row list \<Rightarrow> row \<Rightarrow> int option \<Rightarrow> nat \<Rightarrow> int \<Rightarrow> (row \<times> string) list \<times> debug" where
  "find_candidate_rows db target_row target_year candidate_limit min_results =
     (if normalize_text (vehicle_make target_row) = None \<or> normalize_text (model target_row) = None
      then ([], \<lparr>selected_attempt = None, attempts = [], warning = None,
                 error = Some Missing_make_or_model\<rparr>)
      else relax_loop db target_row target_year candidate_limit min_results
             relaxation_attempts [] None)"


definition admits :: "row \<Rightarrow> int option \<Rightarrow> attempt \<Rightarrow> row \<Rightarrow> bool" where
  \<comment> \<open>the admission predicate of one attempt: the \<^verbatim>\<open>WHERE\<close> clause and the two filters
      of the loop over the fetched rows\<close>
  "admits target_row target_year a r =
     (sql_where target_row a r \<and> row_kept target_row target_year a r)"

definition candidate_set :: "row list \<Rightarrow> row \<Rightarrow> int option \<Rightarrow> attempt \<Rightarrow> row set" where
  \<comment> \<open>the rows an attempt admits when \<^verbatim>\<open>candidate_limit\<close> cuts nothing off\<close>
  "candidate_set db target_row target_year a =
     fst ` set (filtered_rows db target_row target_year (length db) a)"

text \<open>The exact twin of the specification's first scenario, as rows of the store.\<close>

definition example_target :: row where
  "example_target =
     \<lparr>vehicle_id = ''t1'', is_vehicle_available = True, vehicle_make = Some ''BMW'',
      model = Some ''3er'', body_type = Some ''Limousine'', fuel_type = Some ''Benzin'',
      transmission = Some ''Automatik'', color = Some ''Schwarz'',
      first_registration_raw = Some ''2021-03-01'', price = PStr ''25000'',
      price_num = Some 25000, mileage_km = PNum 45000, mileage_num = Some 45000,
      power_kw = Some 120\<rparr>"

definition example_candidate :: row where
  "example_candidate =
     \<lparr>vehicle_id = ''c1'', is_vehicle_available = True, vehicle_make = Some ''BMW'',
      model = Some ''3er'', body_type = Some ''Limousine'', fuel_type = Some ''Benzin'',
      transmission = Some ''Automatik'', color = Some ''schwarz metallic'',
      first_registration_raw = Some ''2020-07-15'', price = PStr ''23.500 EUR'',
      price_num = Some 23500, mileage_km = PNum 43000, mileage_num = Some 43000,
      power_kw = Some 120\<rparr>"

section \<open>The comparables endpoint (api.py, comparables\_endpoint)\<close>

record request =
  top_param :: "string option"
  max_candidates :: "string option"
  balance :: real

datatype response =
    Bad_request
  | Vehicle_not_found
  | No_comparables debug
  | Comparables nat "(row \<times> string) list" debug "real \<times> real"

fun status :: "response \<Rightarrow> nat" where
  "status Bad_request = 400"
| "status Vehicle_not_found = 404"
| "status (No_comparables d) = 404"
| "status (Comparables n rows d w) = 200"

definition parse_int :: "string option \<Rightarrow> int \<Rightarrow> int" where
  "parse_int raw dflt =
     (case raw of
        None \<Rightarrow> dflt
      | Some s \<Rightarrow> (case py_int s of Some n \<Rightarrow> n | None \<Rightarrow> dflt))"

definition fetch_vehicle :: "row list \<Rightarrow> string \<Rightarrow> row option" where
  "fetch_vehicle db vid = find (\<lambda>r. vehicle_id r = vid \<and> is_vehicle_available r) db"

definition parse_top :: "string option \<Rightarrow> int option" where
  \<comment> \<open>\<^verbatim>\<open>max(1, min(int(top_param), 50))\<close>, \<^verbatim>\<open>None\<close> for the 400 response\<close>
  "parse_top raw =
     (case py_int (case raw of None \<Rightarrow> ''10'' | Some s \<Rightarrow> s) of
        None \<Rightarrow> None
      | Some n \<Rightarrow> Some (max 1 (min n 50)))"

definition comparables_endpoint :: "row list \<Rightarrow> request \<Rightarrow> string \<Rightarrow> response" where
  \<comment> \<open>the handler up to the call of \<^verbatim>\<open>score_candidates\<close>; the 200 response carries the
      clamped \<^verbatim>\<open>top\<close>, the raw candidates, the debug record and the ranking weights from
      which its body is built. \<^verbatim>\<open>CANDIDATE_LIMIT\<close> has its default 400.\<close>
  "comparables_endpoint db req vid =
     (case parse_top (top_param req) of
        None \<Rightarrow> Bad_request
      | Some top_n \<Rightarrow>
          (case fetch_vehicle db vid of
             None \<Rightarrow> Vehicle_not_found
           | Some target_row \<Rightarrow>
               (let target_year = extract_year (first_registration_raw target_row);
                    candidate_limit = max 50 (parse_int (max_candidates req) 400);
                    found = find_candidate_rows db target_row target_year
                              (nat candidate_limit) (max top_n 5)
                in if fst found = [] then No_comparables (snd found)
                   else Comparables (nat top_n) (fst found) (snd found)
                          (ranking_weights (balance req)))))"

section \<open>Properties\<close>

subsection \<open>Categorical similarity\<close>




subsection \<open>Colour normalisation\<close>

text \<open>
  Claim C10. \<^verbatim>\<open>normalize_color\<close> is idempotent. It is not: for the colour text \<^verbatim>\<open>"-"\<close>
  the hyphen becomes a blank, the blank is stripped, and the literal fallback returns the
  empty string; the empty string in turn normalises to \<^verbatim>\<open>None\<close>, as every blank text does.
\<close>

theorem normalize_color_hyphen_not_fixed:
  "normalize_color (Some ''-'') = Some []
     \<and> normalize_color (normalize_color (Some ''-'')) = None
     \<and> normalize_color (normalize_color (Some ''-'')) \<noteq> normalize_color (Some ''-'')"
  by code_simp

subsection \<open>Ranking weights\<close>
















subsection \<open>Deal score\<close>







lemma deal_parts:
  "compute_deal_score (Some p) pc m tp tm cm = (deal, d) \<Longrightarrow>
     comparable d = mileage_adjusted (mileage_ratio_of tm cm)
                      (median_score (comps_discount_of p m) (percentile_score pc))
     \<and> hedonic d = hedonic_of p tp (comparable d)
     \<and> deal = max 0 (min 1 (0.5 * comparable d + 0.5 * hedonic d))"
  by (auto simp: compute_deal_score_def Let_def)









subsection \<open>Freshness\<close>

text \<open>
  Claim C9, as amended. The freshness term that enters the final blend is
  \<open>exp (- freshness_days / 30)\<close>, where \<open>freshness_days\<close> is the number of days, not below
  zero, since \<^verbatim>\<open>updated_at\<close>, or since \<^verbatim>\<open>created_at\<close> when \<^verbatim>\<open>updated_at\<close> is absent; the
  term is 0 when the timestamp so chosen is absent or cannot be parsed.
\<close>

theorem freshness_term_blend:
  "blend tol sim deal (freshness_score_of (freshness_days_of now updated_at created_at)) trust =
     max 0 (min 1 (rank_alpha tol * sim + rank_beta tol * deal
        + rank_freshness tol *
            (case (if updated_at = Missing then created_at else updated_at) of
               At t \<Rightarrow> exp (- max 0 ((now - t) / 86400) / 30)
             | Unparsable \<Rightarrow> 0
             | Missing \<Rightarrow> 0)
        + rank_trust tol * trust))"
  by (simp add: blend_def freshness_term_def freshness_score_of_def freshness_days_of_def ts_or_def
      split: timestamp.splits)

text \<open>
  The claim C9 as stated fails: with \<^verbatim>\<open>updated_at\<close> absent and \<^verbatim>\<open>created_at\<close> thirty days
  old the freshness term is \<open>exp (- 1)\<close>, not 0.
\<close>

theorem freshness_from_created_at:
  "freshness_term (freshness_score_of (freshness_days_of 2592000 Missing (At 0))) = exp (- 1)
   \<and> freshness_term (freshness_score_of (freshness_days_of 2592000 Missing (At 0))) \<noteq> 0"
  by (simp add: freshness_term_def freshness_score_of_def freshness_days_of_def ts_or_def)

subsection \<open>Order of the comparables\<close>












subsection \<open>The relaxation ladder\<close>













subsection \<open>Monotonicity of the ladder\<close>

lemma between_widen:
  assumes "sql_between v lo hi" "lo' \<le> lo" "hi \<le> hi'"
  shows "sql_between v lo' hi'"
  using assms by (cases v) (auto simp: sql_between_def)

lemma soft_locks_widen:
  assumes "soft_locks t a r"
    and "mileage_ratio a \<le> mileage_ratio a'"
    and "price_min a' \<le> price_min a" and "price_max a \<le> price_max a'"
    and "power_ratio a \<le> power_ratio a'"
  shows "soft_locks t a' r"
proof -
  have m: "sql_between (mileage_num r) (x * (1 - mileage_ratio a')) (x * (1 + mileage_ratio a'))"
    if "0 < x" "sql_between (mileage_num r) (x * (1 - mileage_ratio a)) (x * (1 + mileage_ratio a))"
    for x :: real
    using that(2) by (rule between_widen) (use that(1) assms(2) in \<open>simp_all add: mult_left_mono\<close>)
  have p: "sql_between (price_num r) (x * price_min a') (x * price_max a')"
    if "0 < x" "sql_between (price_num r) (x * price_min a) (x * price_max a)"
    for x :: real
    using that(2) by (rule between_widen) (use that(1) assms(3,4) in \<open>simp_all add: mult_left_mono\<close>)
  have w: "sql_between (power_kw r) (x * (1 - power_ratio a')) (x * (1 + power_ratio a'))"
    if "0 < x" "sql_between (power_kw r) (x * (1 - power_ratio a)) (x * (1 + power_ratio a))"
    for x :: real
    using that(2) by (rule between_widen) (use that(1) assms(5) in \<open>simp_all add: mult_left_mono\<close>)
  show ?thesis
    using assms(1) m p w unfolding soft_locks_def by (auto split: if_splits)
qed

lemma row_kept_widen:
  assumes "row_kept t y a r" "year_tolerance a \<le> year_tolerance a'"
  shows "row_kept t y a' r"
  using assms unfolding row_kept_def by (auto split: if_splits option.splits)

lemma admits_widen:
  assumes "admits t y a r"
    and "year_tolerance a \<le> year_tolerance a'"
    and "mileage_ratio a \<le> mileage_ratio a'"
    and "price_min a' \<le> price_min a" and "price_max a \<le> price_max a'"
    and "power_ratio a \<le> power_ratio a'"
  shows "admits t y a' r"
  using assms soft_locks_widen[of t a r a'] row_kept_widen[of t y a r a']
  unfolding admits_def sql_where_def by blast

lemma consecutive_wider:
  assumes "k < 4"
  shows "year_tolerance (relaxation_attempts ! k) \<le> year_tolerance (relaxation_attempts ! Suc k)
    \<and> mileage_ratio (relaxation_attempts ! k) \<le> mileage_ratio (relaxation_attempts ! Suc k)
    \<and> price_min (relaxation_attempts ! Suc k) \<le> price_min (relaxation_attempts ! k)
    \<and> price_max (relaxation_attempts ! k) \<le> price_max (relaxation_attempts ! Suc k)
    \<and> power_ratio (relaxation_attempts ! k) \<le> power_ratio (relaxation_attempts ! Suc k)"
proof -
  from assms consider "k = 0" | "k = 1" | "k = 2" | "k = 3" by linarith
  then show ?thesis
    by cases (simp_all add: relaxation_attempts_def)
qed

lemma candidate_set_eq: "candidate_set db t y a = {r \<in> set db. admits t y a r}"
  by (auto simp: candidate_set_def filtered_rows_def fetch_rows_def admits_def image_iff)


text \<open>
  Claim C3. For consecutive attempts k and k+1 of the ladder, a row that the attempt k admits
  (the hard locks and the ranges of its \<^verbatim>\<open>WHERE\<close> clause, and the colour and year filters) is
  admitted by the attempt k+1; when the limit cuts nothing off, the candidates of the
  attempt k are among those of the attempt k+1.
\<close>

theorem relaxation_monotone:
  assumes "k < 4"
  shows "(\<forall>r. admits t y (relaxation_attempts ! k) r
              \<longrightarrow> admits t y (relaxation_attempts ! Suc k) r)
     \<and> candidate_set db t y (relaxation_attempts ! k)
         \<subseteq> candidate_set db t y (relaxation_attempts ! Suc k)"
proof -
  have step: "admits t y (relaxation_attempts ! Suc k) r"
    if "admits t y (relaxation_attempts ! k) r" for r
    using that consecutive_wider[OF assms] by (intro admits_widen[OF that]) simp_all
  then show ?thesis by (auto simp: candidate_set_eq)
qed

theorem relaxation_monotone_witness:
  "admits example_target (Some 2021) (relaxation_attempts ! 0) example_candidate
   \<and> admits example_target (Some 2021) (relaxation_attempts ! 1) example_candidate"
proof -
  have h: "(0::nat) < 4" by simp
  have a: "admits example_target (Some 2021) (relaxation_attempts ! 0) example_candidate"
    by code_simp
  from relaxation_monotone[OF h, of example_target "Some 2021"] a show ?thesis by simp
qed

subsection \<open>Status of the endpoint\<close>






text \<open>
  Claim C8, as amended. A request whose \<^verbatim>\<open>top\<close> parses and whose target exists with a blank
  make or a blank model fails with status 404: the retrieval returns no rows with the error
  that make or model is missing, and the handler answers every empty retrieval with 404.
\<close>

theorem missing_make_is_404:
  assumes "parse_top (top_param req) \<noteq> None"
    and "fetch_vehicle db vid = Some target_row"
    and "normalize_text (vehicle_make target_row) = None \<or> normalize_text (model target_row) = None"
  shows "comparables_endpoint db req vid =
           No_comparables \<lparr>selected_attempt = None, attempts = [], warning = None,
                           error = Some Missing_make_or_model\<rparr>
         \<and> status (comparables_endpoint db req vid) = 404"
  using assms by (auto simp: comparables_endpoint_def find_candidate_rows_def Let_def)

theorem missing_make_is_404_witness:
  "status (comparables_endpoint [example_target\<lparr>model := Some '' ''\<rparr>, example_candidate]
     \<lparr>top_param = Some ''5'', max_candidates = None, balance = 0\<rparr> ''t1'') = 404"
proof -
  have a: "parse_top (top_param \<lparr>top_param = Some ''5'', max_candidates = None, balance = 0\<rparr>)
             \<noteq> None"
    by code_simp
  have b: "fetch_vehicle [example_target\<lparr>model := Some '' ''\<rparr>, example_candidate] ''t1''
             = Some (example_target\<lparr>model := Some '' ''\<rparr>)"
    by code_simp
  have c: "normalize_text (vehicle_make (example_target\<lparr>model := Some '' ''\<rparr>)) = None
             \<or> normalize_text (model (example_target\<lparr>model := Some '' ''\<rparr>)) = None"
    by code_simp
  from missing_make_is_404[OF a b c] show ?thesis by simp
qed

text \<open>
  The claim C8 as stated fails: for the example target with an empty make the status is 404,
  not 400.
\<close>

theorem missing_make_not_400:
  "status (comparables_endpoint [example_target\<lparr>vehicle_make := Some []\<rparr>, example_candidate]
     \<lparr>top_param = None, max_candidates = None, balance = 0\<rparr> ''t1'') = 404
   \<and> status (comparables_endpoint [example_target\<lparr>vehicle_make := Some []\<rparr>, example_candidate]
     \<lparr>top_param = None, max_candidates = None, balance = 0\<rparr> ''t1'') \<noteq> 400"
  by code_simp

subsection \<open>Colour normalisation off the empty string\<close>

lemma ws_ok_collapse: "ws_ok b (collapse_run b s)"
proof (induction s arbitrary: b)
  case Nil
  then show ?case by simp
next
  case (Cons c cs)
  have sp: "is_space (CHR '' '')" by (simp add: is_space_def)
  show ?case using Cons[of True] Cons[of False] sp by (cases b) auto
qed

lemma ws_ok_weaken: "ws_ok b s \<Longrightarrow> ws_ok False s"
  by (cases s) (auto split: if_splits)

lemma ws_ok_fixed: "ws_ok b s \<Longrightarrow> collapse_run b s = s"
  by (induction s arbitrary: b) (auto split: if_splits)

lemma ws_ok_dropWhile: "ws_ok b s \<Longrightarrow> ws_ok False (dropWhile P s)"
proof (induction s arbitrary: b)
  case Nil
  then show ?case by simp
next
  case (Cons c cs)
  then show ?case using ws_ok_weaken[of b "c # cs"] by (auto split: if_splits)
qed

lemma ws_ok_prefix: "ws_ok b (xs @ ys) \<Longrightarrow> ws_ok b xs"
  by (induction xs arbitrary: b) (auto split: if_splits)

lemma rev_dropWhile_rev_prefix: "\<exists>zs. s = rev (dropWhile P (rev s)) @ zs"
proof -
  have "rev s = takeWhile P (rev s) @ dropWhile P (rev s)" by simp
  then have "s = rev (dropWhile P (rev s)) @ rev (takeWhile P (rev s))"
    by (metis rev_append rev_rev_ident)
  then show ?thesis by blast
qed

lemma ws_ok_strip: "ws_ok b s \<Longrightarrow> ws_ok False (py_strip s)"
proof -
  assume "ws_ok b s"
  then have d: "ws_ok False (dropWhile is_space s)" by (rule ws_ok_dropWhile)
  obtain zs where "dropWhile is_space s = py_strip s @ zs"
    using rev_dropWhile_rev_prefix[of "dropWhile is_space s" is_space] by (auto simp: py_strip_def)
  with d show ?thesis using ws_ok_prefix by metis
qed

lemma strip_fixed:
  assumes "s = [] \<or> (\<not> is_space (hd s) \<and> \<not> is_space (last s))"
  shows "py_strip s = s"
proof (cases "s = []")
  case True
  then show ?thesis by (simp add: py_strip_def)
next
  case False
  then have h: "\<not> is_space (hd s)" "\<not> is_space (last s)" using assms by auto
  have a: "dropWhile is_space s = s" using h(1) by (simp add: dropWhile_eq_self_iff)
  have "hd (rev s) = last s" using False by (simp add: hd_rev)
  then have b: "dropWhile is_space (rev s) = rev s"
    using h(2) by (simp add: dropWhile_eq_self_iff)
  show ?thesis by (simp add: py_strip_def a b)
qed

lemma strip_shape:
  "py_strip s = [] \<or> (\<not> is_space (hd (py_strip s)) \<and> \<not> is_space (last (py_strip s)))"
proof (cases "py_strip s = []")
  case True
  then show ?thesis by simp
next
  case False
  define d where "d = dropWhile is_space s"
  define e where "e = dropWhile is_space (rev d)"
  have pe: "py_strip s = rev e" by (simp add: py_strip_def d_def e_def)
  then have ene: "e \<noteq> []" using False by simp
  then have he: "\<not> is_space (hd e)" unfolding e_def by (rule hd_dropWhile)
  have l: "last (py_strip s) = hd e" using ene pe by (simp add: last_rev)
  obtain zs where z: "d = rev e @ zs"
    using rev_dropWhile_rev_prefix[of d is_space] by (auto simp: e_def)
  have dne: "d \<noteq> []" using z ene by simp
  have "hd d = hd (rev e)" using z ene by simp
  moreover have "\<not> is_space (hd d)" using dne unfolding d_def by (rule hd_dropWhile)
  ultimately show ?thesis using pe l he by simp
qed

lemma strip_idem: "py_strip (py_strip s) = py_strip s"
  by (rule strip_fixed) (rule strip_shape)

lemma set_strip: "set (py_strip s) \<subseteq> set s"
proof -
  have "set (py_strip s) \<subseteq> set (dropWhile is_space s)"
    by (auto simp: py_strip_def dest: set_dropWhileD)
  then show ?thesis by (auto dest: set_dropWhileD)
qed

lemma set_collapse: "set (collapse_run b s) \<subseteq> insert (CHR '' '') (set s)"
  by (induction s arbitrary: b) auto


lemma lower_char_idem: "lower_char (lower_char c) = lower_char c"
  by (simp add: lower_char_def)

lemma lower_space: "lower_char (CHR '' '') = CHR '' ''"
  by (simp add: lower_char_def)

lemma clean_chars:
  assumes "c \<in> set (clean_color tx)"
  shows "lower_char c = c \<and> c \<noteq> CHR ''-''"
proof -
  have "c \<in> set (collapse_ws (replace_char (CHR ''-'') (CHR '' '') (py_lower (strip_accents tx))))"
    using assms set_strip unfolding clean_color_def by blast
  then have "c = CHR '' '' \<or>
      c \<in> set (replace_char (CHR ''-'') (CHR '' '') (py_lower (strip_accents tx)))"
    using set_collapse unfolding collapse_ws_def by blast
  then have "c = CHR '' '' \<or> (c \<noteq> CHR ''-'' \<and> c \<in> set (py_lower (strip_accents tx)))"
    by (auto simp: replace_char_def split: if_splits)
  then show ?thesis
    using lower_space by (auto simp: py_lower_def lower_char_idem)
qed

lemma clean_ws_ok: "ws_ok False (clean_color tx)"
  unfolding clean_color_def collapse_ws_def by (rule ws_ok_strip[OF ws_ok_collapse])

lemma clean_color_idem: "clean_color (clean_color tx) = clean_color tx"
proof -
  define l where "l = clean_color tx"
  have a: "py_lower (strip_accents l) = l"
    using clean_chars[of _ tx] unfolding l_def py_lower_def strip_accents_def
    by (intro map_idI) auto
  have b: "replace_char (CHR ''-'') (CHR '' '') l = l"
    using clean_chars[of _ tx] unfolding l_def replace_char_def
    by (intro map_idI) auto
  have c: "collapse_ws l = l"
    unfolding collapse_ws_def l_def by (rule ws_ok_fixed[OF clean_ws_ok])
  have d: "py_strip l = l" unfolding l_def clean_color_def by (rule strip_idem)
  show ?thesis
    unfolding l_def[symmetric] by (subst clean_color_def) (simp add: a b c d)
qed

lemma clean_text_fixed:
  assumes "clean_color tx \<noteq> []"
  shows "normalize_text (Some (clean_color tx)) = Some (clean_color tx)"
proof -
  have "py_strip (clean_color tx) = clean_color tx"
    unfolding clean_color_def by (rule strip_idem)
  then show ?thesis using assms by (simp add: normalize_text_def)
qed


lemma canonical_values:
  "list_all (\<lambda>(k, c). c \<in> set [''white'', ''black'', ''gray'', ''blue'', ''red'', ''silver'',
      ''green'', ''brown'', ''beige'', ''orange'', ''yellow'']) COLOR_CANONICAL_MAP"
  by code_simp

lemma keyword_values:
  "list_all (\<lambda>(c, ks). c \<in> set [''white'', ''black'', ''gray'', ''blue'', ''red'', ''silver'',
      ''green'', ''brown'', ''beige'', ''orange'', ''yellow'']) COLOR_KEYWORD_MAP"
  by code_simp

lemma canonical_fixed:
  "list_all (\<lambda>c. normalize_color (Some c) = Some c) [''white'', ''black'', ''gray'', ''blue'',
      ''red'', ''silver'', ''green'', ''brown'', ''beige'', ''orange'', ''yellow'']"
  by code_simp

lemma map_of_canonical:
  assumes "map_of COLOR_CANONICAL_MAP k = Some c"
  shows "c \<in> set [''white'', ''black'', ''gray'', ''blue'', ''red'', ''silver'',
      ''green'', ''brown'', ''beige'', ''orange'', ''yellow'']"
proof -
  have "(k, c) \<in> set COLOR_CANONICAL_MAP" using assms by (rule map_of_SomeD)
  then show ?thesis using canonical_values unfolding list_all_iff by blast
qed

lemma first_part_canonical:
  assumes "first_canonical_part parts = Some c"
  shows "c \<in> set [''white'', ''black'', ''gray'', ''blue'', ''red'', ''silver'',
      ''green'', ''brown'', ''beige'', ''orange'', ''yellow'']"
  using assms
proof (induction parts)
  case Nil
  then show ?case by simp
next
  case (Cons p ps)
  then show ?case
    using map_of_canonical[of "py_strip p" c]
    by (auto simp: Let_def split: if_splits option.splits)
qed

lemma keyword_lookup_in:
  assumes "keyword_lookup ks l = Some c"
  shows "c \<in> fst ` set ks"
  using assms by (induction ks l rule: keyword_lookup.induct) (auto split: if_splits)

lemma keyword_canonical:
  assumes "keyword_lookup COLOR_KEYWORD_MAP l = Some c"
  shows "c \<in> set [''white'', ''black'', ''gray'', ''blue'', ''red'', ''silver'',
      ''green'', ''brown'', ''beige'', ''orange'', ''yellow'']"
proof -
  obtain ks where "(c, ks) \<in> set COLOR_KEYWORD_MAP"
    using keyword_lookup_in[OF assms] by auto
  then show ?thesis using keyword_values unfolding list_all_iff by blast
qed

lemma normalize_color_Some:
  assumes "normalize_text v = Some tx"
  shows "normalize_color v =
     (case map_of COLOR_CANONICAL_MAP (clean_color tx) of
        Some c \<Rightarrow> Some c
      | None \<Rightarrow>
          (case first_canonical_part (split_parts (clean_color tx)) of
             Some c \<Rightarrow> Some c
           | None \<Rightarrow>
               (case keyword_lookup COLOR_KEYWORD_MAP (clean_color tx) of
                  Some c \<Rightarrow> Some c
                | None \<Rightarrow> Some (clean_color tx))))"
  using assms by (simp add: normalize_color_def Let_def)

lemma canonical_fixed_point:
  assumes "c \<in> set [''white'', ''black'', ''gray'', ''blue'', ''red'', ''silver'',
      ''green'', ''brown'', ''beige'', ''orange'', ''yellow'']"
  shows "normalize_color (Some c) = Some c"
  using canonical_fixed assms unfolding list_all_iff by blast

text \<open>
  In support of claim C10: the empty string is the only output of \<^verbatim>\<open>normalize_color\<close> that
  is not a fixed point. Every canonical colour and every non-empty literal fallback
  normalises to itself.
\<close>

theorem normalize_color_idem_nonempty:
  assumes "normalize_color v \<noteq> Some []"
  shows "normalize_color (normalize_color v) = normalize_color v"
proof (cases "normalize_text v")
  case None
  then show ?thesis by (simp add: normalize_color_def normalize_text_def)
next
  case (Some tx)
  note nc = normalize_color_Some[OF Some]
  show ?thesis
  proof (cases "map_of COLOR_CANONICAL_MAP (clean_color tx)")
    case (Some c)
    then have "normalize_color v = Some c" using nc by simp
    then show ?thesis using canonical_fixed_point[OF map_of_canonical[OF Some]] by simp
  next
    case m: None
    show ?thesis
    proof (cases "first_canonical_part (split_parts (clean_color tx))")
      case (Some c)
      then have "normalize_color v = Some c" using nc m by simp
      then show ?thesis using canonical_fixed_point[OF first_part_canonical[OF Some]] by simp
    next
      case p: None
      show ?thesis
      proof (cases "keyword_lookup COLOR_KEYWORD_MAP (clean_color tx)")
        case (Some c)
        then have "normalize_color v = Some c" using nc m p by simp
        then show ?thesis using canonical_fixed_point[OF keyword_canonical[OF Some]] by simp
      next
        case k: None
        have r: "normalize_color v = Some (clean_color tx)" using nc m p k by simp
        then have ne: "clean_color tx \<noteq> []" using assms by simp
        have "normalize_color (Some (clean_color tx)) = Some (clean_color tx)"
          unfolding normalize_color_Some[OF clean_text_fixed[OF ne]] clean_color_idem
          using m p k by simp
        then show ?thesis using r by simp
      qed
    qed
  qed
qed

theorem normalize_color_idem_nonempty_witness:
  "normalize_color (normalize_color (Some ''Mystic-Blau  Metallic'')) = Some ''blue''"
proof -
  have a: "normalize_color (Some ''Mystic-Blau  Metallic'') = Some ''blue''" by code_simp
  then have "normalize_color (Some ''Mystic-Blau  Metallic'') \<noteq> Some []" by simp
  from normalize_color_idem_nonempty[OF this] a show ?thesis by simp
qed

end
